theory Spec2Isabelle
  imports Complex_Main "HOL-Library.Sublist"
begin

section \<open>Common data\<close>

text \<open>
  A Solana public key is handled by the code through its base58 text
  (\<open>toBase58()\<close>); two keys are the same key exactly when their texts are equal.
  \<open>process.env\<close> is a dictionary from variable names to strings.

  JavaScript \<open>number\<close> values that carry token balances, prices and delays are
  modelled as exact rationals: comparisons against the integer thresholds of the code
  agree with the comparisons of the floating-point values, while the rounding of
  arithmetic results is not modelled.
\<close>

type_synonym pubkey = string

type_synonym env = "string \<rightharpoonup> string"

text \<open>
  A value caught by a \<open>catch\<close> clause: \<open>null\<close>/\<open>undefined\<close>, or an error object
  with its \<open>name\<close> and its \<open>message\<close> (which may be missing).
\<close>

datatype thrown = ThrownNull | ThrownError string "string option"

text \<open>\<open>String.prototype.includes\<close>: the needle occurs as a contiguous run.\<close>

definition str_includes :: "string \<Rightarrow> string \<Rightarrow> bool" where
  "str_includes haystack needle = sublist needle haystack"

text \<open>A parameter with a default value: \<open>None\<close> when the caller leaves it out.\<close>

fun orDefault :: "'a option \<Rightarrow> 'a \<Rightarrow> 'a" where
  "orDefault None d = d"
| "orDefault (Some x) d = x"

text \<open>
  The services a \<open>Connection\<close> and the SPL-token library give the code. Each answer
  is what the call returns, or the value it throws.
\<close>

record rpc =
  getConnection :: "thrown option"
  newPublicKey :: "string \<Rightarrow> thrown + pubkey"
  getAssociatedTokenAddress :: "pubkey \<Rightarrow> pubkey \<Rightarrow> thrown + pubkey"
  getAccount :: "pubkey \<Rightarrow> thrown + int"
  getAccountInfo :: "pubkey \<Rightarrow> bool"
  getLatestBlockhash :: "string \<Rightarrow> string \<times> nat"

section \<open>Token holder tiers (token-holder.ts)\<close>

datatype TokenHolderTier = NONE | BRONZE | SILVER | GOLD | DIAMOND

record TokenBenefits =
  slotMachine_discountPercent :: rat
  slotMachine_bonusMultiplier :: rat
  slotMachine_freeSpinsDaily :: rat
  lottery_discountPercent :: rat
  lottery_bonusEntries :: rat
  lottery_winBoostPercent :: rat
  blinks_creatorFeeDiscount :: rat
  blinks_priorityExecution :: bool
  blinks_customBranding :: bool

record TokenHolderInfo =
  tier :: TokenHolderTier
  balance :: rat
  rawBalance :: int
  benefits :: TokenBenefits

definition B402_DECIMALS :: nat where
  "B402_DECIMALS = 9"

text \<open>
  \<open>TIER_THRESHOLDS\<close>: the record has a key for every tier but \<open>NONE\<close>, so no
  equation is given for \<open>NONE\<close>.
\<close>

fun TIER_THRESHOLDS :: "TokenHolderTier \<Rightarrow> rat" where
  "TIER_THRESHOLDS BRONZE = 1000"
| "TIER_THRESHOLDS SILVER = 10000"
| "TIER_THRESHOLDS GOLD = 50000"
| "TIER_THRESHOLDS DIAMOND = 100000"

fun TIER_BENEFITS :: "TokenHolderTier \<Rightarrow> TokenBenefits" where
  "TIER_BENEFITS NONE = \<lparr>
     slotMachine_discountPercent = 0, slotMachine_bonusMultiplier = 1,
     slotMachine_freeSpinsDaily = 0,
     lottery_discountPercent = 0, lottery_bonusEntries = 0, lottery_winBoostPercent = 0,
     blinks_creatorFeeDiscount = 0, blinks_priorityExecution = False,
     blinks_customBranding = False \<rparr>"
| "TIER_BENEFITS BRONZE = \<lparr>
     slotMachine_discountPercent = 5, slotMachine_bonusMultiplier = 105 / 100,
     slotMachine_freeSpinsDaily = 1,
     lottery_discountPercent = 5, lottery_bonusEntries = 0, lottery_winBoostPercent = 5,
     blinks_creatorFeeDiscount = 10, blinks_priorityExecution = False,
     blinks_customBranding = False \<rparr>"
| "TIER_BENEFITS SILVER = \<lparr>
     slotMachine_discountPercent = 10, slotMachine_bonusMultiplier = 110 / 100,
     slotMachine_freeSpinsDaily = 3,
     lottery_discountPercent = 10, lottery_bonusEntries = 1, lottery_winBoostPercent = 10,
     blinks_creatorFeeDiscount = 20, blinks_priorityExecution = False,
     blinks_customBranding = True \<rparr>"
| "TIER_BENEFITS GOLD = \<lparr>
     slotMachine_discountPercent = 15, slotMachine_bonusMultiplier = 115 / 100,
     slotMachine_freeSpinsDaily = 5,
     lottery_discountPercent = 15, lottery_bonusEntries = 2, lottery_winBoostPercent = 15,
     blinks_creatorFeeDiscount = 30, blinks_priorityExecution = True,
     blinks_customBranding = True \<rparr>"
| "TIER_BENEFITS DIAMOND = \<lparr>
     slotMachine_discountPercent = 20, slotMachine_bonusMultiplier = 125 / 100,
     slotMachine_freeSpinsDaily = 10,
     lottery_discountPercent = 20, lottery_bonusEntries = 5, lottery_winBoostPercent = 25,
     blinks_creatorFeeDiscount = 50, blinks_priorityExecution = True,
     blinks_customBranding = True \<rparr>"

text \<open>
  The tier decision of \<open>getB402HolderTier\<close> (the \<open>if\<close> chain on \<open>balance\<close>),
  tested from the highest threshold down.
\<close>

definition tierForBalance :: "rat \<Rightarrow> TokenHolderTier" where
  "tierForBalance b =
     (if b \<ge> TIER_THRESHOLDS DIAMOND then DIAMOND
      else if b \<ge> TIER_THRESHOLDS GOLD then GOLD
      else if b \<ge> TIER_THRESHOLDS SILVER then SILVER
      else if b \<ge> TIER_THRESHOLDS BRONZE then BRONZE
      else NONE)"

text \<open>The order of the tiers, lowest first, in which the spec calls the tier monotonic.\<close>

fun tierRank :: "TokenHolderTier \<Rightarrow> nat" where
  "tierRank NONE = 0"
| "tierRank BRONZE = 1"
| "tierRank SILVER = 2"
| "tierRank GOLD = 3"
| "tierRank DIAMOND = 4"

text \<open>The object every failing path of \<open>getB402HolderTier\<close> returns.\<close>

definition noneHolderInfo :: TokenHolderInfo where
  "noneHolderInfo = \<lparr> tier = NONE, balance = 0, rawBalance = 0, benefits = TIER_BENEFITS NONE \<rparr>"

text \<open>
  The inner \<open>catch\<close> of \<open>getB402HolderTier\<close>. It reads \<open>error.name\<close>, which itself
  throws a \<open>TypeError\<close> when the caught value is \<open>null\<close>; both of its branches return
  the same object.
\<close>

fun innerCatch :: "thrown \<Rightarrow> thrown + TokenHolderInfo" where
  "innerCatch ThrownNull = Inl (ThrownError ''TypeError'' None)"
| "innerCatch (ThrownError name message) =
     (if name = ''TokenAccountNotFoundError''
         \<or> (case message of None \<Rightarrow> False | Some m \<Rightarrow> str_includes m ''could not find'')
         \<or> (case message of None \<Rightarrow> False | Some m \<Rightarrow> str_includes m ''Invalid'')
      then Inr noneHolderInfo
      else Inr noneHolderInfo)"

text \<open>
  The body of the outer \<open>try\<close>: connection, key parsing and token-account address are
  looked up first, then the inner \<open>try\<close> reads the account and computes the tier.
\<close>

definition holderTierTry :: "rpc \<Rightarrow> pubkey \<Rightarrow> string \<Rightarrow> thrown + TokenHolderInfo" where
  "holderTierTry r B402_MINT walletAddress =
     (case getConnection r of
        Some e \<Rightarrow> Inl e
      | None \<Rightarrow>
         (case newPublicKey r walletAddress of
            Inl e \<Rightarrow> Inl e
          | Inr wallet \<Rightarrow>
             (case getAssociatedTokenAddress r B402_MINT wallet of
                Inl e \<Rightarrow> Inl e
              | Inr tokenAccount \<Rightarrow>
                 (case getAccount r tokenAccount of
                    Inl e \<Rightarrow> innerCatch e
                  | Inr amount \<Rightarrow>
                     (let bal = of_int amount / 10 ^ B402_DECIMALS;
                          t = tierForBalance bal
                      in Inr \<lparr> tier = t, balance = bal, rawBalance = amount,
                               benefits = TIER_BENEFITS t \<rparr>)))))"

text \<open>
  \<open>getB402HolderTier\<close>: the outer \<open>catch\<close> turns whatever escaped the body into the
  \<open>NONE\<close> object. \<open>Inl\<close> would be an exception leaving the function.
\<close>

definition getB402HolderTier :: "rpc \<Rightarrow> pubkey \<Rightarrow> string \<Rightarrow> thrown + TokenHolderInfo" where
  "getB402HolderTier r B402_MINT walletAddress =
     (case holderTierTry r B402_MINT walletAddress of
        Inl e \<Rightarrow> Inr noneHolderInfo
      | Inr info \<Rightarrow> Inr info)"

section \<open>Configuration (the config package)\<close>

definition isProduction :: "env \<Rightarrow> bool" where
  "isProduction e = (e ''NODE_ENV'' = Some ''production'')"

text \<open>\<open>isMockPaymentsEnabled\<close> of the config package.\<close>

definition isMockPaymentsEnabled :: "env \<Rightarrow> bool" where
  "isMockPaymentsEnabled e =
     (if isProduction e then False else e ''MOCK_PAYMENTS'' = Some ''true'')"

section \<open>Errors of the Solana helpers\<close>

text \<open>
  The code throws plain \<open>Error\<close> objects that differ in their message only. Each
  constructor stands for one \<open>throw\<close> statement and carries the values the message
  interpolates; \<open>Thrown\<close> wraps a value thrown by a library call or by the runtime.
\<close>

datatype error =
    MetadataNotAvailable
  | ReferenceNotFound
  | WrongToken pubkey string
  | NoSplTransferFound pubkey pubkey
  | WrongAmount int int int
  | RecipientNotFound pubkey
  | NoSolReceived pubkey int
  | WrongSolAmount int int int
  | RpcError string
  | PaymentNotFound
  | NoConfirmedTransaction
  | FailedOnChain string
  | ConfirmationTimeout int string
  | ConfirmedTxNotFound string
  | FailedOnBlockchain string
  | InvalidPayerWallet
  | InvalidMerchantWallet pubkey
  | InsufficientUsdc rat rat
  | NoUsdcAccount
  | MerchantAccountMissing
  | Thrown thrown

section \<open>Transfer validation (validateTransferManually and its helpers)\<close>

text \<open>
  An entry of \<open>message.accountKeys\<close> in a raw \<open>jsonParsed\<close> response: a string, or
  an object whose \<open>pubkey\<close> field is the string.
\<close>

datatype account_key = KeyString string | KeyObject string

fun keyStr :: "account_key \<Rightarrow> string" where
  "keyStr (KeyString s) = s"
| "keyStr (KeyObject s) = s"

text \<open>
  An entry of \<open>preTokenBalances\<close>/\<open>postTokenBalances\<close>;
  \<open>uiTokenAmount_amount\<close> is the value \<open>BigInt(uiTokenAmount.amount)\<close>.
\<close>

record token_balance =
  accountIndex :: nat
  mint :: string
  uiTokenAmount_amount :: int

text \<open>
  \<open>transaction.meta\<close>. \<open>err\<close> is \<open>None\<close> for \<open>null\<close> and otherwise holds the
  JSON text of the error value (an object or a non-empty string, hence truthy). The
  lists are \<open>None\<close> when the field is missing.
\<close>

record tx_meta =
  err :: "string option"
  postTokenBalances :: "token_balance list option"
  preTokenBalances :: "token_balance list option"
  postBalances :: "int list option"
  preBalances :: "int list option"

text \<open>\<open>transaction.transaction\<close>, of which only \<open>message.accountKeys\<close> is read.\<close>

record tx_message =
  accountKeys :: "account_key list option"

record raw_tx =
  meta :: "tx_meta option"
  transaction :: "tx_message option"
  blockTime :: "int option"

text \<open>\<open>xs || []\<close> for a list that may be missing.\<close>

fun orEmpty :: "'a list option \<Rightarrow> 'a list" where
  "orEmpty None = []"
| "orEmpty (Some xs) = xs"

text \<open>\<open>BigInt(xs[i] || 0)\<close>: a missing entry reads as 0.\<close>

definition nthOr0 :: "int list \<Rightarrow> nat \<Rightarrow> int" where
  "nthOr0 xs i = (if i < length xs then xs ! i else 0)"

text \<open>\<open>Array.prototype.findIndex\<close>, with \<open>None\<close> for -1.\<close>

fun findIndex :: "('a \<Rightarrow> bool) \<Rightarrow> 'a list \<Rightarrow> nat option" where
  "findIndex P [] = None"
| "findIndex P (x # xs) =
     (if P x then Some 0 else map_option Suc (findIndex P xs))"

text \<open>\<open>a > b ? a - b : b - a\<close> on bigints.\<close>

definition amountDifference :: "int \<Rightarrow> int \<Rightarrow> int" where
  "amountDifference actual expected =
     (if actual > expected then actual - expected else expected - actual)"

text \<open>
  \<open>balanceChange\<close> of \<open>validateSplTokenTransfer\<close>: the post amount minus the pre
  amount of the entry with the same account index (0 when there is none).
\<close>

definition tokenBalanceChange :: "token_balance list \<Rightarrow> token_balance \<Rightarrow> int" where
  "tokenBalanceChange pre postBalance =
     uiTokenAmount_amount postBalance -
     (case find (\<lambda>pb. accountIndex pb = accountIndex postBalance) pre of
        None \<Rightarrow> 0
      | Some pb \<Rightarrow> uiTokenAmount_amount pb)"

text \<open>
  The \<open>for\<close> loop of \<open>validateSplTokenTransfer\<close> over \<open>postTokenBalances\<close>. It
  stops at the first entry whose account is the recipient's token account and whose
  balance grew: \<open>Inr (Some change)\<close>, or the wrong-token error when that entry's
  mint differs. \<open>Inr None\<close> is a loop that ended with \<open>transferFound\<close> still false.
  An \<open>accountIndex\<close> past the end of \<open>accountKeys\<close> reads \<open>undefined.pubkey\<close>,
  a \<open>TypeError\<close>.
\<close>

fun findTokenTransfer ::
  "account_key list \<Rightarrow> token_balance list \<Rightarrow> pubkey \<Rightarrow> pubkey \<Rightarrow> token_balance list
     \<Rightarrow> error + int option" where
  "findTokenTransfer keys pre expectedRecipientATA expectedToken [] = Inr None"
| "findTokenTransfer keys pre expectedRecipientATA expectedToken (postBalance # rest) =
     (let balanceChange = tokenBalanceChange pre postBalance
      in if \<not> accountIndex postBalance < length keys
         then Inl (Thrown (ThrownError ''TypeError'' None))
         else if keyStr (keys ! accountIndex postBalance) = expectedRecipientATA
                 \<and> balanceChange > 0
         then (if mint postBalance \<noteq> expectedToken
               then Inl (WrongToken expectedToken (mint postBalance))
               else Inr (Some balanceChange))
         else findTokenTransfer keys pre expectedRecipientATA expectedToken rest)"

definition validateSplTokenTransfer ::
  "rpc \<Rightarrow> tx_meta \<Rightarrow> tx_message \<Rightarrow> pubkey \<Rightarrow> int \<Rightarrow> pubkey \<Rightarrow> error + unit" where
  "validateSplTokenTransfer r m msg expectedRecipient expectedAmount expectedToken =
     (case getAssociatedTokenAddress r expectedToken expectedRecipient of
        Inl e \<Rightarrow> Inl (Thrown e)
      | Inr expectedRecipientATA \<Rightarrow>
         (case findTokenTransfer (orEmpty (accountKeys msg)) (orEmpty (preTokenBalances m))
                 expectedRecipientATA expectedToken (orEmpty (postTokenBalances m)) of
            Inl e \<Rightarrow> Inl e
          | Inr None \<Rightarrow> Inl (NoSplTransferFound expectedRecipient expectedRecipientATA)
          | Inr (Some actualAmount) \<Rightarrow>
             (if amountDifference actualAmount expectedAmount > 1
              then Inl (WrongAmount expectedAmount actualAmount
                          (amountDifference actualAmount expectedAmount))
              else Inr ())))"

definition validateSolTransfer ::
  "tx_meta \<Rightarrow> tx_message \<Rightarrow> pubkey \<Rightarrow> int \<Rightarrow> error + unit" where
  "validateSolTransfer m msg expectedRecipient expectedAmount =
     (case findIndex (\<lambda>key. keyStr key = expectedRecipient) (orEmpty (accountKeys msg)) of
        None \<Rightarrow> Inl (RecipientNotFound expectedRecipient)
      | Some recipientIndex \<Rightarrow>
         (let postBalance = nthOr0 (orEmpty (postBalances m)) recipientIndex;
              preBalance = nthOr0 (orEmpty (preBalances m)) recipientIndex;
              balanceChange = postBalance - preBalance
          in if balanceChange \<le> 0 then Inl (NoSolReceived expectedRecipient balanceChange)
             else if amountDifference balanceChange expectedAmount > 1000000
             then Inl (WrongSolAmount expectedAmount balanceChange
                         (amountDifference balanceChange expectedAmount))
             else Inr ()))"

text \<open>
  \<open>validateTransferManually\<close>: the metadata check, then step 1 (the reference must be
  one of the account keys), then step 2 (the balance check for the asset).
  \<open>expectedToken\<close> is \<open>None\<close> for native SOL.
\<close>

definition validateTransferManually ::
  "rpc \<Rightarrow> raw_tx \<Rightarrow> pubkey \<Rightarrow> int \<Rightarrow> pubkey option \<Rightarrow> pubkey \<Rightarrow> error + unit" where
  "validateTransferManually r tx expectedRecipient expectedAmount expectedToken reference =
     (case meta tx of
        None \<Rightarrow> Inl MetadataNotAvailable
      | Some m \<Rightarrow>
         (case transaction tx of
            None \<Rightarrow> Inl MetadataNotAvailable
          | Some msg \<Rightarrow>
             (if reference \<notin> set (map keyStr (orEmpty (accountKeys msg)))
              then Inl ReferenceNotFound
              else (case expectedToken of
                      Some token \<Rightarrow>
                        validateSplTokenTransfer r m msg expectedRecipient expectedAmount token
                    | None \<Rightarrow>
                        validateSolTransfer m msg expectedRecipient expectedAmount))))"

section \<open>Payment verification (verifyPayment)\<close>

text \<open>An entry of \<open>getSignaturesForAddress\<close>.\<close>

record sig_info =
  sigInfo_signature :: string
  sigInfo_confirmationStatus :: "string option"

text \<open>
  The \<open>value\<close> of a \<open>getSignatureStatus\<close> response; \<open>status_err\<close> as \<open>err\<close> of
  \<open>tx_meta\<close>.
\<close>

record sig_status =
  status_err :: "string option"
  confirmationStatus :: "string option"

text \<open>
  What \<open>_rpcRequest('getTransaction', ...)\<close> answers: an object with an \<open>error\<close>
  field, or a result that may be \<open>null\<close>.
\<close>

datatype tx_response = RpcErrorResponse string | RpcResult "raw_tx option"

text \<open>
  Everything one call of \<open>verifyPayment\<close> observes of the ledger and of the clock:
  \<^item> \<open>signatures\<close>: the answer of \<open>getSignaturesForAddress\<close>;
  \<^item> \<open>startTime\<close>: the first reading of \<open>Date.now()\<close>;
  \<^item> \<open>polls\<close>: for each turn of the confirmation loop, the reading of \<open>Date.now()\<close>
    in the loop test and the \<open>value\<close> that \<open>getSignatureStatus\<close> then returns
    (\<open>None\<close> for a missing status);
  \<^item> \<open>txResponse\<close>: the answer of the raw \<open>getTransaction\<close> request;
  \<^item> \<open>endTime\<close>: the reading of \<open>Date.now()\<close> for the fallback timestamp.
\<close>

record ledger_view =
  signatures :: "sig_info list"
  startTime :: int
  polls :: "(int \<times> sig_status option) list"
  txResponse :: tx_response
  endTime :: int

record VerificationResult =
  signature :: string
  amount :: int
  timestamp :: int

definition isConfirmedStatus :: "string option \<Rightarrow> bool" where
  "isConfirmedStatus c = (c = Some ''confirmed'' \<or> c = Some ''finalized'')"

definition findReferenceWithoutValidation :: "sig_info list \<Rightarrow> error + string \<times> string" where
  "findReferenceWithoutValidation sigs =
     (if length sigs = 0 then Inl PaymentNotFound
      else (case find (\<lambda>sig. isConfirmedStatus (sigInfo_confirmationStatus sig)) sigs of
              None \<Rightarrow> Inl NoConfirmedTransaction
            | Some confirmedSig \<Rightarrow>
                Inr (sigInfo_signature confirmedSig,
                     (case sigInfo_confirmationStatus confirmedSig of
                        None \<Rightarrow> ''confirmed'' | Some c \<Rightarrow> c))))"

text \<open>
  The confirmation loop of \<open>verifyPayment\<close>,
  \<open>while (!confirmed && (Date.now() - startTime < timeout))\<close>, run on the observed
  polls. \<open>Some (Inr confirmed)\<close> is the loop left normally with that value of
  \<open>confirmed\<close>, \<open>Some (Inl e)\<close> is the \<open>throw\<close> inside the loop, and \<open>None\<close> means
  the observations end while the loop is still running.
\<close>

fun awaitConfirmation ::
  "int \<Rightarrow> int \<Rightarrow> (int \<times> sig_status option) list \<Rightarrow> (error + bool) option" where
  "awaitConfirmation timeout start [] = None"
| "awaitConfirmation timeout start ((now, status) # rest) =
     (if \<not> (now - start < timeout) then Some (Inr False)
      else (case status of
              None \<Rightarrow> awaitConfirmation timeout start rest
            | Some st \<Rightarrow>
               (case status_err st of
                  Some e \<Rightarrow> Some (Inl (FailedOnChain e))
                | None \<Rightarrow>
                   (if isConfirmedStatus (confirmationStatus st) then Some (Inr True)
                    else awaitConfirmation timeout start rest))))"

text \<open>
  A poll after which the loop goes round again: read before the deadline, and either
  without a status or with a status that has no error and is not yet confirmed.
\<close>

definition pendingPoll :: "int \<Rightarrow> int \<Rightarrow> int \<times> sig_status option \<Rightarrow> bool" where
  "pendingPoll timeout start p =
     (fst p - start < timeout
      \<and> (case snd p of
            None \<Rightarrow> True
          | Some st \<Rightarrow> status_err st = None \<and> \<not> isConfirmedStatus (confirmationStatus st)))"

text \<open>The condition of the mock branch of \<open>verifyPayment\<close>.\<close>

definition mockMode :: "env \<Rightarrow> bool" where
  "mockMode e = (e ''MOCK_PAYMENTS'' = Some ''true'' \<and> e ''NODE_ENV'' \<noteq> Some ''production'')"

text \<open>Steps 3 to 6 of \<open>verifyPayment\<close>, once the signature is confirmed.\<close>

definition checkTransaction ::
  "rpc \<Rightarrow> ledger_view \<Rightarrow> string \<Rightarrow> pubkey \<Rightarrow> pubkey \<Rightarrow> int \<Rightarrow> pubkey option
     \<Rightarrow> error + VerificationResult" where
  "checkTransaction r v sig reference recipient amt splToken =
     (case txResponse v of
        RpcErrorResponse msg \<Rightarrow> Inl (RpcError msg)
      | RpcResult None \<Rightarrow> Inl (ConfirmedTxNotFound sig)
      | RpcResult (Some tx) \<Rightarrow>
         (case (case meta tx of None \<Rightarrow> None | Some m \<Rightarrow> err m) of
            Some e \<Rightarrow> Inl (FailedOnBlockchain e)
          | None \<Rightarrow>
             (case validateTransferManually r tx recipient amt splToken reference of
                Inl e \<Rightarrow> Inl e
              | Inr u \<Rightarrow>
                 Inr \<lparr> signature = sig, amount = amt,
                       timestamp =
                         (case blockTime tx of
                            None \<Rightarrow> endTime v div 1000
                          | Some t \<Rightarrow> if t = 0 then endTime v div 1000 else t) \<rparr>)))"

text \<open>
  \<open>verifyPayment\<close>. \<open>timeout\<close> is \<open>None\<close> when the caller leaves it out (30000 ms).
  The final \<open>catch\<close> rethrows every \<open>Error\<close> unchanged. The result is \<open>None\<close> only
  when the observed polls end before the confirmation loop does.
\<close>

definition verifyPayment ::
  "env \<Rightarrow> rpc \<Rightarrow> ledger_view \<Rightarrow> pubkey \<Rightarrow> pubkey \<Rightarrow> int \<Rightarrow> pubkey option \<Rightarrow> int option
     \<Rightarrow> (error + VerificationResult) option" where
  "verifyPayment e r v reference recipient amt splToken timeout =
     (if mockMode e
      then Some (Inr \<lparr> signature = ''MOCK_'' @ take 44 reference @ ''_VERIFIED'',
                       amount = amt, timestamp = startTime v div 1000 \<rparr>)
      else (case findReferenceWithoutValidation (signatures v) of
              Inl e \<Rightarrow> Some (Inl e)
            | Inr (sig, status) \<Rightarrow>
               (case awaitConfirmation (orDefault timeout 30000) (startTime v) (polls v) of
                  None \<Rightarrow> None
                | Some (Inl e) \<Rightarrow> Some (Inl e)
                | Some (Inr False) \<Rightarrow>
                    Some (Inl (ConfirmationTimeout (orDefault timeout 30000) sig))
                | Some (Inr True) \<Rightarrow>
                    Some (checkTransaction r v sig reference recipient amt splToken))))"

section \<open>Transaction templates\<close>

text \<open>
  The instructions the builders create. \<open>TransferChecked source mint destination owner
  amount decimals extra\<close> and \<open>SystemTransfer from to lamports extra\<close> carry in
  \<open>extra\<close> the read-only, non-signer keys pushed onto the instruction afterwards (the
  payment reference). \<open>CreateAssociatedTokenAccount payer ata owner mint\<close>.
\<close>

datatype instruction =
    SetComputeUnitLimit nat
  | SetComputeUnitPrice nat
  | CreateAssociatedTokenAccount pubkey pubkey pubkey pubkey
  | TransferChecked pubkey pubkey pubkey pubkey int nat "pubkey list"
  | SystemTransfer pubkey pubkey int "pubkey list"
  | MemoInstruction string

text \<open>
  An unsigned transaction: the instruction list in order, the fee payer, and the
  blockhash it is bound to (\<open>lastValidBlockHeight\<close> is set on legacy transactions only).
\<close>

record tx_template =
  instructions :: "instruction list"
  feePayer :: pubkey
  recentBlockhash :: string
  lastValidBlockHeight :: "nat option"

definition PAYAI_FEE_PAYER :: pubkey where
  "PAYAI_FEE_PAYER = ''2wKupLR9q6wXYppw8Gr2NvWxKBUqm4PPJKkQfoxHDBg4''"

definition USDC_MINT_MAINNET :: pubkey where
  "USDC_MINT_MAINNET = ''EPjFWdd5AufqSSqeM2qN1xzybapC8G4wEGGkZwyTDt1v''"

definition USDC_MINT_DEVNET :: pubkey where
  "USDC_MINT_DEVNET = ''4zMMC9srt5Ri5X14GAgXhaHii3GnPAEERYPJgZJDncDU''"

definition USDC_DECIMALS :: nat where
  "USDC_DECIMALS = 6"







text \<open>
  The balance check of \<open>buildUsdcPaymentTransaction\<close> with its \<open>catch\<close>: the handler
  reads \<open>err.message.includes\<close>, a \<open>TypeError\<close> on a value without a message, turns a
  "could not find" error into the missing-account error and rethrows anything else,
  the insufficient-balance error of the \<open>try\<close> block included.
\<close>

definition checkPayerBalance :: "rpc \<Rightarrow> pubkey \<Rightarrow> rat \<Rightarrow> error option" where
  "checkPayerBalance r payerATA amountUsdc =
     (case getAccount r payerATA of
        Inr raw \<Rightarrow>
          (if of_int raw / 1000000 < amountUsdc
           then Some (InsufficientUsdc (of_int raw / 1000000) amountUsdc)
           else None)
      | Inl ThrownNull \<Rightarrow> Some (Thrown (ThrownError ''TypeError'' None))
      | Inl (ThrownError name None) \<Rightarrow> Some (Thrown (ThrownError ''TypeError'' None))
      | Inl (ThrownError name (Some message)) \<Rightarrow>
          (if str_includes message ''could not find'' then Some NoUsdcAccount
           else Some (Thrown (ThrownError name (Some message)))))"

text \<open>
  \<open>buildUsdcPaymentTransaction\<close>. \<open>network\<close> is \<open>None\<close> when left out (mainnet);
  \<open>Math.round\<close> rounds half up.
\<close>

definition buildUsdcPaymentTransaction ::
  "rpc \<Rightarrow> pubkey \<Rightarrow> pubkey \<Rightarrow> rat \<Rightarrow> string option \<Rightarrow> error + tx_template" where
  "buildUsdcPaymentTransaction r payer merchant amountUsdc network =
     (let USDC_MINT = (if network = Some ''devnet'' then USDC_MINT_DEVNET else USDC_MINT_MAINNET);
          amountAtomic = \<lfloor>amountUsdc * 1000000 + 1 / 2\<rfloor>
      in case getAssociatedTokenAddress r USDC_MINT payer of
           Inl x \<Rightarrow> Inl InvalidPayerWallet
         | Inr payerATA \<Rightarrow>
            (case getAssociatedTokenAddress r USDC_MINT merchant of
               Inl x \<Rightarrow> Inl (InvalidMerchantWallet merchant)
             | Inr merchantATA \<Rightarrow>
                (case checkPayerBalance r payerATA amountUsdc of
                   Some x \<Rightarrow> Inl x
                 | None \<Rightarrow>
                    (if \<not> getAccountInfo r merchantATA then Inl MerchantAccountMissing
                     else Inr \<lparr> instructions =
                                  [SetComputeUnitLimit 40000,
                                   SetComputeUnitPrice 1,
                                   TransferChecked payerATA USDC_MINT merchantATA payer
                                     amountAtomic USDC_DECIMALS []],
                                feePayer = PAYAI_FEE_PAYER,
                                recentBlockhash = fst (getLatestBlockhash r ''confirmed''),
                                lastValidBlockHeight = None \<rparr>))))"

section \<open>Retry with exponential backoff (retry-utils)\<close>







section \<open>Sample ledger data\<close>

text \<open>
  A ledger for the worked examples: every string is a key, the token account of an
  owner for a mint is named after both, and exactly the listed token accounts exist,
  with the listed raw balances.
\<close>

definition sampleRpc :: "(pubkey \<times> int) list \<Rightarrow> rpc" where
  "sampleRpc accounts =
     \<lparr> getConnection = None,
       newPublicKey = (\<lambda>s. Inr s),
       getAssociatedTokenAddress = (\<lambda>mintKey owner. Inr (owner @ '':'' @ mintKey)),
       getAccount =
         (\<lambda>a. case map_of accounts a of
                 Some n \<Rightarrow> Inr n
               | None \<Rightarrow> Inl (ThrownError ''TokenAccountNotFoundError'' None)),
       getAccountInfo = (\<lambda>a. map_of accounts a \<noteq> None),
       getLatestBlockhash = (\<lambda>commitment. (''blockhash-'' @ commitment, 1000)) \<rparr>"

text \<open>
  A token payment as the raw RPC shows it: payer \<open>P\<close> moves \<open>received\<close> units of
  the mint \<open>USDC\<close> to the token account of merchant \<open>M\<close>; \<open>keys\<close> are the
  account keys of the message.
\<close>

definition sampleTokenTx :: "account_key list \<Rightarrow> int \<Rightarrow> raw_tx" where
  "sampleTokenTx keys received =
     \<lparr> meta = Some
         \<lparr> err = None,
           postTokenBalances = Some
             [\<lparr> accountIndex = 1, mint = ''USDC'', uiTokenAmount_amount = 900000 - received \<rparr>,
              \<lparr> accountIndex = 2, mint = ''USDC'', uiTokenAmount_amount = 7 + received \<rparr>],
           preTokenBalances = Some
             [\<lparr> accountIndex = 1, mint = ''USDC'', uiTokenAmount_amount = 900000 \<rparr>,
              \<lparr> accountIndex = 2, mint = ''USDC'', uiTokenAmount_amount = 7 \<rparr>],
           postBalances = None,
           preBalances = None \<rparr>,
       transaction = Some \<lparr> accountKeys = Some keys \<rparr>,
       blockTime = Some 1700000000 \<rparr>"

definition sampleKeys :: "account_key list" where
  "sampleKeys = [KeyString ''P'', KeyString ''P:USDC'', KeyString ''M:USDC'', KeyString ''R'']"

text \<open>
  What one verification observes: signature \<open>T\<close> is listed as confirmed for the
  reference, the clock starts at 0, and the polls and the transaction are as given.
\<close>

definition sampleView :: "(int \<times> sig_status option) list \<Rightarrow> tx_response \<Rightarrow> ledger_view" where
  "sampleView ps response =
     \<lparr> signatures =
         [\<lparr> sigInfo_signature = ''T'', sigInfo_confirmationStatus = Some ''confirmed'' \<rparr>],
       startTime = 0,
       polls = ps,
       txResponse = response,
       endTime = 9000 \<rparr>"

definition sampleFailedTx :: raw_tx where
  "sampleFailedTx =
     \<lparr> meta = Some
         \<lparr> err = Some ''InstructionError'',
           postTokenBalances = None,
           preTokenBalances = None,
           postBalances = None,
           preBalances = None \<rparr>,
       transaction = Some \<lparr> accountKeys = Some sampleKeys \<rparr>,
       blockTime = Some 1700000000 \<rparr>"



section \<open>Properties of the tier engine\<close>

lemma tierForBalance_mono:
  "a \<le> b \<Longrightarrow> tierRank (tierForBalance a) \<le> tierRank (tierForBalance b)"
  by (simp add: tierForBalance_def)

lemma getB402HolderTier_tier:
  "getB402HolderTier r m w = Inr info \<Longrightarrow> tier info = tierForBalance (balance info)"
  by (auto simp: getB402HolderTier_def holderTierTry_def noneHolderInfo_def tierForBalance_def
        Let_def
      split: option.splits sum.splits thrown.splits if_splits elim!: innerCatch.elims)

text \<open>
  Claim C6. The tier is monotonic non-decreasing in the balance (in the order
  \<open>NONE < BRONZE < SILVER < GOLD < DIAMOND\<close>), and at the thresholds it takes the
  stated values: tier(0) = NONE, tier(1000) = BRONZE, tier(9999) = BRONZE,
  tier(10000) = SILVER, tier(50000) = GOLD, tier(100000) = DIAMOND. The tier function is
  the one \<open>getB402HolderTier\<close> applies: the tier of every object it returns is the
  tier of that object's balance.
\<close>

theorem tier_monotone_thresholds:
  "(a \<le> b \<longrightarrow> tierRank (tierForBalance a) \<le> tierRank (tierForBalance b))
   \<and> tierForBalance 0 = NONE
   \<and> tierForBalance 1000 = BRONZE
   \<and> tierForBalance 9999 = BRONZE
   \<and> tierForBalance 10000 = SILVER
   \<and> tierForBalance 50000 = GOLD
   \<and> tierForBalance 100000 = DIAMOND
   \<and> (getB402HolderTier r m w = Inr info \<longrightarrow> tier info = tierForBalance (balance info))"
  using tierForBalance_mono[of a b] getB402HolderTier_tier[of r m w info]
  by (simp add: tierForBalance_def)

theorem tier_monotone_thresholds_witness:
  "tierRank (tierForBalance 9999) \<le> tierRank (tierForBalance 10000)
   \<and> getB402HolderTier (sampleRpc [(''W:B402'', 15000000000000)]) ''B402'' ''W''
       = Inr \<lparr> tier = SILVER, balance = 15000, rawBalance = 15000000000000,
               benefits = TIER_BENEFITS SILVER \<rparr>
   \<and> tierForBalance 15000 = SILVER"
  using tier_monotone_thresholds[of 9999 10000
     "sampleRpc [(''W:B402'', 15000000000000)]" "''B402''" "''W''"
     "\<lparr> tier = SILVER, balance = 15000, rawBalance = 15000000000000,
        benefits = TIER_BENEFITS SILVER \<rparr>"]
  by (simp add: getB402HolderTier_def holderTierTry_def sampleRpc_def tierForBalance_def
        B402_DECIMALS_def)

lemma holderTierTry_failure:
  "holderTierTry r m w = Inr info \<Longrightarrow>
   getConnection r \<noteq> None \<or> isl (newPublicKey r w)
     \<or> (\<exists>wallet. newPublicKey r w = Inr wallet
           \<and> (isl (getAssociatedTokenAddress r m wallet)
                \<or> (\<exists>tokenAccount. getAssociatedTokenAddress r m wallet = Inr tokenAccount
                      \<and> isl (getAccount r tokenAccount)))) \<Longrightarrow>
   info = noneHolderInfo"
  by (auto simp: holderTierTry_def split: option.splits sum.splits if_splits
      elim!: innerCatch.elims)

text \<open>
  Claim C10. \<open>getB402HolderTier\<close> never throws: for every wallet address and every
  behaviour of the ledger it returns an object. If the balance lookup fails at any step
  (no connection, an invalid address, no token-account address, or reading the token
  account throws anything at all), the object is tier \<open>NONE\<close> with balance 0, raw
  balance 0 and the benefits of \<open>NONE\<close>.
\<close>

theorem getB402HolderTier_never_throws:
  "(\<exists>info. getB402HolderTier r m w = Inr info)
   \<and> (getConnection r \<noteq> None \<or> isl (newPublicKey r w)
        \<or> (\<exists>wallet. newPublicKey r w = Inr wallet
              \<and> (isl (getAssociatedTokenAddress r m wallet)
                   \<or> (\<exists>tokenAccount. getAssociatedTokenAddress r m wallet = Inr tokenAccount
                         \<and> isl (getAccount r tokenAccount))))
      \<longrightarrow> getB402HolderTier r m w
            = Inr \<lparr> tier = NONE, balance = 0, rawBalance = 0, benefits = TIER_BENEFITS NONE \<rparr>)"
proof (intro conjI impI)
  show "\<exists>info. getB402HolderTier r m w = Inr info"
    by (simp add: getB402HolderTier_def split: sum.splits)
next
  assume fails: "getConnection r \<noteq> None \<or> isl (newPublicKey r w)
        \<or> (\<exists>wallet. newPublicKey r w = Inr wallet
              \<and> (isl (getAssociatedTokenAddress r m wallet)
                   \<or> (\<exists>tokenAccount. getAssociatedTokenAddress r m wallet = Inr tokenAccount
                         \<and> isl (getAccount r tokenAccount))))"
  show "getB402HolderTier r m w
            = Inr \<lparr> tier = NONE, balance = 0, rawBalance = 0, benefits = TIER_BENEFITS NONE \<rparr>"
  proof (cases "holderTierTry r m w")
    case (Inl e)
    then show ?thesis by (simp add: getB402HolderTier_def noneHolderInfo_def)
  next
    case (Inr info)
    from holderTierTry_failure[OF Inr fails] Inr show ?thesis
      by (simp add: getB402HolderTier_def noneHolderInfo_def)
  qed
qed

theorem getB402HolderTier_never_throws_witness:
  "getB402HolderTier (sampleRpc []) ''B402'' ''W''
     = Inr \<lparr> tier = NONE, balance = 0, rawBalance = 0, benefits = TIER_BENEFITS NONE \<rparr>
   \<and> getAccount (sampleRpc []) ''W:B402'' = Inl (ThrownError ''TokenAccountNotFoundError'' None)
   \<and> getB402HolderTier
        ((sampleRpc [])\<lparr> newPublicKey :=
            (\<lambda>s. Inl (ThrownError ''Error'' (Some ''Invalid public key input''))) \<rparr>)
        ''B402'' ''not-a-key''
     = Inr \<lparr> tier = NONE, balance = 0, rawBalance = 0, benefits = TIER_BENEFITS NONE \<rparr>
   \<and> getB402HolderTier
        ((sampleRpc [])\<lparr> getAccount := (\<lambda>a. Inl ThrownNull) \<rparr>) ''B402'' ''W''
     = Inr \<lparr> tier = NONE, balance = 0, rawBalance = 0, benefits = TIER_BENEFITS NONE \<rparr>"
  using getB402HolderTier_never_throws[of "sampleRpc []" "''B402''" "''W''"]
    getB402HolderTier_never_throws[of
      "(sampleRpc [])\<lparr> newPublicKey :=
          (\<lambda>s. Inl (ThrownError ''Error'' (Some ''Invalid public key input''))) \<rparr>"
      "''B402''" "''not-a-key''"]
    getB402HolderTier_never_throws[of
      "(sampleRpc [])\<lparr> getAccount := (\<lambda>a. Inl ThrownNull) \<rparr>" "''B402''" "''W''"]
  by (simp add: sampleRpc_def)

section \<open>Properties of the configuration and of payment verification\<close>

text \<open>
  Claim C4. In a production deployment (\<open>NODE_ENV\<close> equals \<open>production\<close>) the flag
  \<open>MOCK_PAYMENTS\<close> has no effect, whatever its value and whether it is set at all:
  \<open>isMockPaymentsEnabled\<close> returns false, \<open>verifyPayment\<close> does not take the mock
  branch, and two runs of \<open>verifyPayment\<close> that differ in the flag only give the same
  outcome.
\<close>

theorem production_disables_mock:
  "e ''NODE_ENV'' = Some ''production'' \<Longrightarrow>
     isMockPaymentsEnabled (e(''MOCK_PAYMENTS'' := flag)) = False
   \<and> \<not> mockMode (e(''MOCK_PAYMENTS'' := flag))
   \<and> verifyPayment (e(''MOCK_PAYMENTS'' := flag)) r v reference recipient amt splToken timeout
       = verifyPayment (e(''MOCK_PAYMENTS'' := flag')) r v reference recipient amt splToken timeout"
  by (simp add: isMockPaymentsEnabled_def isProduction_def mockMode_def verifyPayment_def)

theorem production_disables_mock_witness:
  "isMockPaymentsEnabled [''NODE_ENV'' \<mapsto> ''production'', ''MOCK_PAYMENTS'' \<mapsto> ''true''] = False
   \<and> verifyPayment [''NODE_ENV'' \<mapsto> ''production'', ''MOCK_PAYMENTS'' \<mapsto> ''true'']
        (sampleRpc []) ((sampleView [] (RpcResult None))\<lparr> signatures := [] \<rparr>)
        ''R'' ''M'' 50000 (Some ''USDC'') None
     = Some (Inl PaymentNotFound)
   \<and> verifyPayment [''NODE_ENV'' \<mapsto> ''development'', ''MOCK_PAYMENTS'' \<mapsto> ''true'']
        (sampleRpc []) ((sampleView [] (RpcResult None))\<lparr> signatures := [] \<rparr>)
        ''R'' ''M'' 50000 (Some ''USDC'') None
     = Some (Inr \<lparr> signature = ''MOCK_R_VERIFIED'', amount = 50000, timestamp = 0 \<rparr>)"
  using production_disables_mock[of "[''NODE_ENV'' \<mapsto> ''production'']" "Some ''true''"
     "sampleRpc []" "(sampleView [] (RpcResult None))\<lparr> signatures := [] \<rparr>"
     "''R''" "''M''" 50000 "Some ''USDC''" None None]
  by (simp add: verifyPayment_def mockMode_def sampleView_def
        findReferenceWithoutValidation_def)

lemma awaitConfirmation_skip:
  "list_all (pendingPoll T s) pre \<Longrightarrow>
   awaitConfirmation T s (pre @ rest) = awaitConfirmation T s rest"
  by (induction pre) (auto simp: pendingPoll_def split: option.splits)

lemma verifyPayment_success_example:
  "verifyPayment Map.empty (sampleRpc [])
      (sampleView
         [(0, None),
          (2000, Some \<lparr> status_err = None, confirmationStatus = Some ''confirmed'' \<rparr>)]
         (RpcResult (Some (sampleTokenTx sampleKeys 50000))))
      ''R'' ''M'' 50000 (Some ''USDC'') None
     = Some (Inr \<lparr> signature = ''T'', amount = 50000, timestamp = 1700000000 \<rparr>)"
  by (simp add: verifyPayment_def mockMode_def sampleView_def
        findReferenceWithoutValidation_def isConfirmedStatus_def
        checkTransaction_def sampleTokenTx_def sampleKeys_def sampleRpc_def
        validateTransferManually_def validateSplTokenTransfer_def tokenBalanceChange_def
        amountDifference_def)

text \<open>
  Claim C1. Take a verification outside the mock branch that has located a signature
  and whose confirmation loop, after polls that only made it wait, reads a status \<open>st\<close>
  before the deadline.
  \<^item> If \<open>st\<close> carries an execution error, \<open>verifyPayment\<close> throws the on-chain
    failure error with that error. This is terminal: the outcome does not depend on any
    later poll (\<open>rest\<close>) nor on the transaction the ledger would return.
  \<^item> If \<open>st\<close> is confirmed without error but the fetched transaction records an
    execution error in its metadata, \<open>verifyPayment\<close> throws the failure error of
    the final safety check.
  \<^item> Hence a \<open>VerificationResult\<close> is returned only when neither the status nor the
    transaction reported an execution error.
\<close>

theorem execution_error_terminal:
  assumes "\<not> mockMode e"
    and "findReferenceWithoutValidation (signatures v) = Inr (sig, cs)"
    and "polls v = pre @ (now, Some st) # rest"
    and "list_all (pendingPoll (orDefault timeout 30000) (startTime v)) pre"
    and "now - startTime v < orDefault timeout 30000"
  shows "(status_err st = Some x \<longrightarrow>
            verifyPayment e r v reference recipient amt splToken timeout
              = Some (Inl (FailedOnChain x)))
       \<and> (status_err st = None \<and> isConfirmedStatus (confirmationStatus st)
            \<and> txResponse v = RpcResult (Some tx) \<and> meta tx = Some m \<and> err m = Some x \<longrightarrow>
            verifyPayment e r v reference recipient amt splToken timeout
              = Some (Inl (FailedOnBlockchain x)))
       \<and> (verifyPayment e r v reference recipient amt splToken timeout = Some (Inr res) \<longrightarrow>
            status_err st = None
            \<and> (\<forall>tx m. txResponse v = RpcResult (Some tx) \<and> meta tx = Some m \<longrightarrow> err m = None))"
proof -
  have loop: "awaitConfirmation (orDefault timeout 30000) (startTime v) (polls v)
        = (case status_err st of
             Some x \<Rightarrow> Some (Inl (FailedOnChain x))
           | None \<Rightarrow> if isConfirmedStatus (confirmationStatus st) then Some (Inr True)
                     else awaitConfirmation (orDefault timeout 30000) (startTime v) rest)"
    using assms(3-5) by (simp add: awaitConfirmation_skip split: option.splits)
  show ?thesis
    using assms(1,2) loop
    by (auto simp: verifyPayment_def checkTransaction_def
        split: option.splits sum.splits bool.splits tx_response.splits if_splits)
qed

theorem execution_error_terminal_witness:
  "verifyPayment Map.empty (sampleRpc [])
      (sampleView
         [(0, None),
          (2000, Some \<lparr> status_err = Some ''InstructionError'',
                        confirmationStatus = Some ''confirmed'' \<rparr>),
          (4000, Some \<lparr> status_err = None, confirmationStatus = Some ''finalized'' \<rparr>)]
         (RpcResult (Some (sampleTokenTx sampleKeys 50000))))
      ''R'' ''M'' 50000 (Some ''USDC'') None
     = Some (Inl (FailedOnChain ''InstructionError''))
   \<and> verifyPayment Map.empty (sampleRpc [])
      (sampleView
         [(0, None),
          (2000, Some \<lparr> status_err = None, confirmationStatus = Some ''confirmed'' \<rparr>)]
         (RpcResult (Some sampleFailedTx)))
      ''R'' ''M'' 50000 (Some ''USDC'') None
     = Some (Inl (FailedOnBlockchain ''InstructionError''))
   \<and> verifyPayment Map.empty (sampleRpc [])
      (sampleView
         [(0, None),
          (2000, Some \<lparr> status_err = None, confirmationStatus = Some ''confirmed'' \<rparr>)]
         (RpcResult (Some (sampleTokenTx sampleKeys 50000))))
      ''R'' ''M'' 50000 (Some ''USDC'') None
     = Some (Inr \<lparr> signature = ''T'', amount = 50000, timestamp = 1700000000 \<rparr>)"
proof -
  have mock: "\<not> mockMode Map.empty"
    by (simp add: mockMode_def)
  have located: "findReferenceWithoutValidation (signatures (sampleView ps response))
                   = Inr (''T'', ''confirmed'')" for ps response
    by (simp add: findReferenceWithoutValidation_def sampleView_def isConfirmedStatus_def)
  have waited: "list_all (pendingPoll (orDefault None 30000) (startTime (sampleView ps response)))
                  [(0, None)]" for ps response
    by (simp add: pendingPoll_def sampleView_def)
  have in_time: "2000 - startTime (sampleView ps response) < orDefault None 30000"
    for ps response
    by (simp add: sampleView_def)
  have first: "verifyPayment Map.empty (sampleRpc [])
      (sampleView
         [(0, None),
          (2000, Some \<lparr> status_err = Some ''InstructionError'',
                        confirmationStatus = Some ''confirmed'' \<rparr>),
          (4000, Some \<lparr> status_err = None, confirmationStatus = Some ''finalized'' \<rparr>)]
         (RpcResult (Some (sampleTokenTx sampleKeys 50000))))
      ''R'' ''M'' 50000 (Some ''USDC'') None
     = Some (Inl (FailedOnChain ''InstructionError''))"
    using execution_error_terminal[where pre = "[(0, None)]" and now = 2000
          and rest = "[(4000, Some \<lparr> status_err = None,
                                      confirmationStatus = Some ''finalized'' \<rparr>)]"
          and st = "\<lparr> status_err = Some ''InstructionError'',
                      confirmationStatus = Some ''confirmed'' \<rparr>"
          and x = "''InstructionError''" and timeout = None,
        OF mock located _ waited in_time]
    by (simp add: sampleView_def)
  have second: "verifyPayment Map.empty (sampleRpc [])
      (sampleView
         [(0, None),
          (2000, Some \<lparr> status_err = None, confirmationStatus = Some ''confirmed'' \<rparr>)]
         (RpcResult (Some sampleFailedTx)))
      ''R'' ''M'' 50000 (Some ''USDC'') None
     = Some (Inl (FailedOnBlockchain ''InstructionError''))"
    using execution_error_terminal[where pre = "[(0, None)]" and now = 2000
          and rest = "[]"
          and st = "\<lparr> status_err = None, confirmationStatus = Some ''confirmed'' \<rparr>"
          and x = "''InstructionError''" and tx = sampleFailedTx
          and m = "the (meta sampleFailedTx)" and timeout = None,
        OF mock located _ waited in_time]
    by (simp add: sampleView_def sampleFailedTx_def isConfirmedStatus_def)
  show ?thesis using first second verifyPayment_success_example by simp
qed

section \<open>Properties of transfer validation\<close>

text \<open>
  Claim C2. If the reference is not among the account keys of the transaction,
  \<open>validateTransferManually\<close> fails before any balance is looked at, whatever the
  recipient, the amount, the asset and the balances are: with the reference-not-found
  error for a transaction that has its metadata and message (and with the
  metadata-not-available error of the preceding check for one that lacks them).
\<close>

theorem reference_absent_fails:
  assumes "\<forall>msg. transaction tx = Some msg
             \<longrightarrow> reference \<notin> set (map keyStr (orEmpty (accountKeys msg)))"
  shows "validateTransferManually r tx expectedRecipient expectedAmount expectedToken reference
           = (if meta tx = None \<or> transaction tx = None then Inl MetadataNotAvailable
              else Inl ReferenceNotFound)"
  using assms by (auto simp: validateTransferManually_def split: option.splits)

theorem reference_absent_fails_witness:
  "validateTransferManually (sampleRpc [])
      (sampleTokenTx [KeyString ''P'', KeyString ''P:USDC'', KeyString ''M:USDC''] 50000)
      ''M'' 50000 (Some ''USDC'') ''R''
     = Inl ReferenceNotFound
   \<and> validateTransferManually (sampleRpc [])
      (sampleTokenTx
         [KeyString ''P'', KeyString ''P:USDC'', KeyString ''M:USDC'', KeyString ''R''] 50000)
      ''M'' 50000 (Some ''USDC'') ''R''
     = Inr ()"
  using reference_absent_fails[of
      "sampleTokenTx [KeyString ''P'', KeyString ''P:USDC'', KeyString ''M:USDC''] 50000"
      "''R''" "sampleRpc []" "''M''" 50000 "Some ''USDC''"]
  by (simp add: sampleTokenTx_def validateTransferManually_def validateSplTokenTransfer_def
        sampleRpc_def tokenBalanceChange_def amountDifference_def)





section \<open>Properties of the transaction templates\<close>

lemma floor_half_up: "\<lfloor>100001 / 2 :: rat\<rfloor> = 50000"
  by code_simp

text \<open>
  Claim C5, as amended. Every payment template returned by
  \<open>buildUsdcPaymentTransaction\<close> contains exactly 3 instructions in the fixed order
  set-compute-unit-limit, set-compute-unit-price, SPL token transfer (from the payer's
  token account to the merchant's, authorised by the payer), and its fee payer is the
  fixed account \<open>PAYAI_FEE_PAYER\<close>; the fee payer is therefore distinct from the
  sending wallet for every payer other than that account.
\<close>

theorem payment_template_shape:
  assumes "buildUsdcPaymentTransaction r payer merchant amountUsdc network = Inr t"
  shows "(\<exists>payerATA merchantATA usdcMint atomic.
            instructions t =
              [SetComputeUnitLimit 40000, SetComputeUnitPrice 1,
               TransferChecked payerATA usdcMint merchantATA payer atomic 6 []]
            \<and> getAssociatedTokenAddress r usdcMint payer = Inr payerATA
            \<and> getAssociatedTokenAddress r usdcMint merchant = Inr merchantATA)
       \<and> length (instructions t) = 3
       \<and> feePayer t = PAYAI_FEE_PAYER
       \<and> (feePayer t \<noteq> payer \<longleftrightarrow> payer \<noteq> PAYAI_FEE_PAYER)"
  using assms
  by (auto simp: buildUsdcPaymentTransaction_def Let_def USDC_DECIMALS_def
      split: sum.splits option.splits if_splits)

theorem payment_template_shape_witness:
  "buildUsdcPaymentTransaction
      (sampleRpc [(''P:'' @ USDC_MINT_MAINNET, 90000), (''M:'' @ USDC_MINT_MAINNET, 0)])
      ''P'' ''M'' (5 / 100) None
     = Inr \<lparr> instructions =
               [SetComputeUnitLimit 40000, SetComputeUnitPrice 1,
                TransferChecked (''P:'' @ USDC_MINT_MAINNET) USDC_MINT_MAINNET
                  (''M:'' @ USDC_MINT_MAINNET) ''P'' 50000 6 []],
             feePayer = PAYAI_FEE_PAYER,
             recentBlockhash = ''blockhash-confirmed'',
             lastValidBlockHeight = None \<rparr>"
  using payment_template_shape[of
      "sampleRpc [(''P:'' @ USDC_MINT_MAINNET, 90000), (''M:'' @ USDC_MINT_MAINNET, 0)]"
      "''P''" "''M''" "5 / 100" None
      "\<lparr> instructions =
               [SetComputeUnitLimit 40000, SetComputeUnitPrice 1,
                TransferChecked (''P:'' @ USDC_MINT_MAINNET) USDC_MINT_MAINNET
                  (''M:'' @ USDC_MINT_MAINNET) ''P'' 50000 6 []],
             feePayer = PAYAI_FEE_PAYER,
             recentBlockhash = ''blockhash-confirmed'',
             lastValidBlockHeight = None \<rparr>"]
    floor_half_up
  by (simp add: buildUsdcPaymentTransaction_def sampleRpc_def checkPayerBalance_def
        USDC_DECIMALS_def Let_def)

text \<open>
  Claim C5 as stated fails for the payer that is the PayAI account itself: when that
  wallet holds enough USDC and the merchant's token account exists, the builder
  returns a template whose fee payer is the sending wallet.
\<close>

theorem payment_fee_payer_counterexample:
  "map_sum id feePayer
     (buildUsdcPaymentTransaction
        (sampleRpc [(PAYAI_FEE_PAYER @ '':'' @ USDC_MINT_MAINNET, 90000),
                    (''M:'' @ USDC_MINT_MAINNET, 0)])
        PAYAI_FEE_PAYER ''M'' (5 / 100) None)
     = Inr PAYAI_FEE_PAYER"
  by (simp add: buildUsdcPaymentTransaction_def sampleRpc_def checkPayerBalance_def
        USDC_DECIMALS_def Let_def)




section \<open>Properties of the retry policy\<close>










end
